theory Spec2Isabelle
  imports Main
begin

section \<open>Go values used by package \<open>signer/local\<close>\<close>

text \<open>
  A Go slice is either \<open>nil\<close> or a (possibly empty) sequence: \<open>None\<close> is \<open>nil\<close>,
  \<open>Some []\<close> is the non-nil empty slice \<open>[]T{}\<close>. \<open>len\<close> is 0 on both, and
  \<open>append\<close> to either gives a non-nil slice.
\<close>

type_synonym 'a slice = "'a list option"

definition elems :: "'a slice \<Rightarrow> 'a list" where
  "elems s = (case s of None \<Rightarrow> [] | Some xs \<Rightarrow> xs)"

definition len :: "'a slice \<Rightarrow> nat" where
  "len s = length (elems s)"

definition append_slice :: "'a slice \<Rightarrow> 'a \<Rightarrow> 'a slice" where
  "append_slice s x = Some (elems s @ [x])"

type_synonym bytes = string

subsection \<open>Errors\<close>

text \<open>
  The error values of package \<open>cferr\<close> that this file builds (\<open>cferr.New\<close>,
  \<open>cferr.Wrap\<close>), and plain Go errors (\<open>errors.New\<close>), which is also what the
  collaborators outside this package hand back. A nil-pointer dereference is not a returned
  error but a run-time panic; \<open>failure\<close> keeps the two apart.
\<close>

datatype Category = PolicyError | CertificateError

datatype Reason =
  Unknown | ReadFailed | DecodeFailed | ParseFailed | BadRequest | InvalidPolicy | InvalidRequest

datatype go_error =
  cferr_New Category Reason
| cferr_Wrap Category Reason go_error
| errors_New string

datatype failure = NilDereference | Error go_error

subsection \<open>\<open>pkix.Name\<close>, \<open>x509.Certificate\<close>, \<open>pem.Block\<close>\<close>

text \<open>Only the fields that this package reads or writes are kept.\<close>

record pkix_Name =
  CommonName :: string
  Country :: "string slice"
  Province :: "string slice"
  Locality :: "string slice"
  Organization :: "string slice"
  OrganizationalUnit :: "string slice"

type_synonym net_IP = "nat list"

record Certificate =
  Subject :: pkix_Name
  DNSNames :: "string slice"
  IPAddresses :: "net_IP slice"
  SerialNumber :: int
  IsCA :: bool
  MaxPathLen :: int
  PublicKey :: bytes

record pem_Block =
  Type :: string
  Bytes :: bytes

subsection \<open>\<open>config.Signing\<close>, \<open>signer.Subject\<close>, \<open>signer.SignRequest\<close>\<close>

record SigningProfile =
  UseSerialSeq :: bool

text \<open>
  \<open>Profiles\<close> is a \<open>map[string]*SigningProfile\<close>: a missing key and a key bound to
  \<open>nil\<close> both read as \<open>nil\<close>, which is \<open>None\<close> here. \<open>Default\<close> is a pointer.
\<close>

record Signing =
  Profiles :: "string \<rightharpoonup> SigningProfile"
  Default :: "SigningProfile option"

text \<open>The flag \<open>O\<close> of the source is \<open>O'\<close> here (\<open>O\<close> is relation composition).\<close>

record Whitelist =
  CN :: bool
  C :: bool
  ST :: bool
  L :: bool
  O' :: bool
  OU :: bool

text \<open>
  \<open>Names\<close> is a \<open>[]csr.Name\<close>; this package only takes its length, so the element
  type stays a parameter and \<open>nil\<close> is the empty list.
\<close>

record 'n Subject =
  Whitelist :: "Whitelist option"
  Names :: "'n list"

text \<open>The field \<open>Subject\<close> of \<open>SignRequest\<close> is \<open>Subject_override\<close> here.\<close>

record 'n SignRequest =
  Hosts :: "string slice"
  Request :: bytes
  Subject_override :: "'n Subject option"
  Profile :: string
  SerialSeq :: string

subsection \<open>The store of certificate objects\<close>

text \<open>
  \<open>*x509.Certificate\<close> values are addresses into a store. \<open>sign\<close> keeps the template's
  address in the signer and goes on writing through it, so the objects are kept apart from
  the pointers to them. Addresses below \<open>used\<close> are the allocated ones; \<open>new\<close> hands
  out the next.
\<close>

type_synonym addr = nat

record store =
  cells :: "addr \<Rightarrow> Certificate"
  used :: addr

definition upd :: "addr \<Rightarrow> (Certificate \<Rightarrow> Certificate) \<Rightarrow> store \<Rightarrow> store" where
  "upd p f \<sigma> = \<sigma>\<lparr>cells := (cells \<sigma>)(p := f (cells \<sigma> p))\<rparr>"

definition new :: "Certificate \<Rightarrow> store \<Rightarrow> addr \<times> store" where
  "new c \<sigma> = (used \<sigma>, \<sigma>\<lparr>cells := (cells \<sigma>)(used \<sigma> := c), used := Suc (used \<sigma>)\<rparr>)"

section \<open>The signer\<close>

type_synonym crypto_Signer = bytes

record Signer =
  ca :: "addr option"
  priv :: crypto_Signer
  policy :: "Signing option"
  sigAlgo :: nat

text \<open>
  What this package calls but does not define: the standard library (\<open>x509\<close>, \<open>pem\<close>,
  \<open>net\<close>) and the packages \<open>signer\<close> and \<open>config\<close>. Each is a parameter.
  \<^item> \<open>FillTemplate\<close> writes through the template pointer and returns an error or nil:
    the pair is the error and the template as it leaves the call.
  \<^item> \<open>CreateCertificate\<close> receives the template, the parent, the public key and the
    private key (its random source is part of the parameter).
  \<^item> \<open>ParseCertificate\<close> returns a nil certificate together with every error.
  \<^item> \<open>pem_Decode\<close> returns the first block, or nil.
  \<^item> \<open>Valid\<close> is a method on a possibly nil \<open>*config.Signing\<close>.
\<close>

record 'n externals =
  FillTemplate ::
    "Certificate \<Rightarrow> SigningProfile option \<Rightarrow> SigningProfile option \<Rightarrow> string
      \<Rightarrow> go_error option \<times> Certificate"
  CreateCertificate :: "Certificate \<Rightarrow> Certificate \<Rightarrow> bytes \<Rightarrow> crypto_Signer \<Rightarrow> go_error + bytes"
  ParseCertificate :: "bytes \<Rightarrow> go_error + Certificate"
  ParseCertificateRequest :: "Signer \<Rightarrow> bytes \<Rightarrow> go_error + Certificate"
  pem_Decode :: "bytes \<Rightarrow> pem_Block option"
  pem_EncodeToMemory :: "pem_Block \<Rightarrow> bytes"
  ParseIP :: "string \<Rightarrow> net_IP option"
  Valid :: "Signing option \<Rightarrow> bool"
  DefaultConfig :: "SigningProfile option"
  signer_MaxPathLen :: int
  Subject_Name :: "'n Subject \<Rightarrow> pkix_Name"

subsection \<open>\<open>NewSigner\<close>, \<open>SetPolicy\<close> and the accessors\<close>

definition NewSigner ::
  "'n externals \<Rightarrow> crypto_Signer \<Rightarrow> addr option \<Rightarrow> nat \<Rightarrow> Signing option \<Rightarrow> go_error + Signer"
where
  "NewSigner X priv' cert sigAlgo' policy0 =
    (let policy' =
       (case policy0 of
          None \<Rightarrow> Some \<lparr>Profiles = Map.empty, Default = DefaultConfig X\<rparr>
        | Some p \<Rightarrow> Some p)
     in if \<not> Valid X policy' then Inl (cferr_New PolicyError InvalidPolicy)
        else Inr \<lparr>ca = cert, priv = priv', policy = policy', sigAlgo = sigAlgo'\<rparr>)"

definition SetPolicy :: "Signer \<Rightarrow> Signing option \<Rightarrow> Signer" where
  "SetPolicy s policy' = s\<lparr>policy := policy'\<rparr>"

definition Policy :: "Signer \<Rightarrow> Signing option" where
  "Policy s = policy s"

definition SigAlgo :: "Signer \<Rightarrow> nat" where
  "SigAlgo s = sigAlgo s"

text \<open>
  \<open>Certificate\<close> (here \<open>Certificate_of\<close>) reads \<open>*s.ca\<close> into a local and returns the
  local's address: a nil \<open>s.ca\<close> panics, otherwise a new object with the same contents is
  returned with a nil error. \<open>NewSignerFromFile\<close> only reads two files and calls
  \<open>NewSigner\<close>; it is left out.
\<close>

definition Certificate_of :: "Signer \<Rightarrow> string \<Rightarrow> string \<Rightarrow> store \<Rightarrow> (failure + addr) \<times> store" where
  "Certificate_of s label profile \<sigma> =
    (case ca s of
       None \<Rightarrow> (Inl NilDereference, \<sigma>)
     | Some p \<Rightarrow> (let (cert, \<sigma>') = new (cells \<sigma> p) \<sigma> in (Inr cert, \<sigma>')))"

subsection \<open>\<open>sign\<close>\<close>

text \<open>
  The result is what \<open>sign\<close> returns (the PEM bytes, an error, or a panic), the signer and
  the store as the call leaves them. Writing the log line has no effect on either.
\<close>

definition sign ::
  "'n externals \<Rightarrow> Signer \<Rightarrow> addr \<Rightarrow> SigningProfile option \<Rightarrow> string \<Rightarrow> store
    \<Rightarrow> (failure + bytes) \<times> Signer \<times> store"
where
  "sign X s template profile serialSeq \<sigma> =
    (case policy s of
       None \<Rightarrow> (Inl NilDereference, s, \<sigma>)
     | Some pol \<Rightarrow>
        (case FillTemplate X (cells \<sigma> template) (Default pol) profile serialSeq of
           (Some err, t) \<Rightarrow> (Inl (Error err), s, upd template (\<lambda>_. t) \<sigma>)
         | (None, t) \<Rightarrow>
            (let \<sigma>0 = upd template (\<lambda>_. t) \<sigma> in
             case
               (case ca s of
                  None \<Rightarrow>
                    if \<not> IsCA (cells \<sigma>0 template)
                    then Inl (cferr_New PolicyError InvalidRequest)
                    else
                      (let \<sigma>1 = upd template (\<lambda>c. c\<lparr>DNSNames := None\<rparr>) \<sigma>0;
                           s1 = s\<lparr>ca := Some template\<rparr>;
                           \<sigma>2 = upd template (\<lambda>c. c\<lparr>MaxPathLen := signer_MaxPathLen X\<rparr>) \<sigma>1
                       in Inr (s1, True, \<sigma>2))
                | Some _ \<Rightarrow>
                    if IsCA (cells \<sigma>0 template)
                    then
                      (let \<sigma>1 = upd template (\<lambda>c. c\<lparr>MaxPathLen := 1\<rparr>) \<sigma>0;
                           \<sigma>2 = upd template (\<lambda>c. c\<lparr>DNSNames := None\<rparr>) \<sigma>1
                       in Inr (s, False, \<sigma>2))
                    else Inr (s, False, \<sigma>0))
             of
               Inl err \<Rightarrow> (Inl (Error err), s, \<sigma>0)
             | Inr (s1, initRoot, \<sigma>1) \<Rightarrow>
                (case ca s1 of
                   None \<Rightarrow> (Inl NilDereference, s1, \<sigma>1)
                 | Some parent \<Rightarrow>
                    (case CreateCertificate X (cells \<sigma>1 template) (cells \<sigma>1 parent)
                            (PublicKey (cells \<sigma>1 template)) (priv s1) of
                       Inl err \<Rightarrow> (Inl (Error (cferr_Wrap CertificateError Unknown err)), s1, \<sigma>1)
                     | Inr derBytes \<Rightarrow>
                        (let cert = pem_EncodeToMemory X \<lparr>Type = ''CERTIFICATE'', Bytes = derBytes\<rparr>
                         in if initRoot
                            then
                              (case ParseCertificate X derBytes of
                                 Inl err \<Rightarrow>
                                   (Inl (Error (cferr_Wrap CertificateError ParseFailed err)),
                                    s1\<lparr>ca := None\<rparr>, \<sigma>1)
                               | Inr parsed \<Rightarrow>
                                   (let (p, \<sigma>2) = new parsed \<sigma>1
                                    in (Inr cert, s1\<lparr>ca := Some p\<rparr>, \<sigma>2)))
                            else (Inr cert, s1, \<sigma>1)))))))"

subsection \<open>The subject reconciler\<close>

definition replaceSliceIfEmpty :: "string slice \<Rightarrow> string slice \<Rightarrow> string slice" where
  "replaceSliceIfEmpty replaced newContents =
    (if len replaced = 0 then newContents else replaced)"

definition whitelistString :: "bool \<Rightarrow> string \<Rightarrow> string" where
  "whitelistString keep field = (if \<not> keep then [] else field)"

definition whitelistStringSlice :: "bool \<Rightarrow> string slice \<Rightarrow> string slice" where
  "whitelistStringSlice keep field = (if \<not> keep then Some [] else field)"

definition whitelistRequest :: "'n Subject option \<Rightarrow> pkix_Name \<Rightarrow> pkix_Name" where
  "whitelistRequest s name =
    (case s of
       None \<Rightarrow> name
     | Some s' \<Rightarrow>
        (case Whitelist s' of
           None \<Rightarrow> name
         | Some w \<Rightarrow>
            name\<lparr>CommonName := whitelistString (CN w) (CommonName name),
                 Country := whitelistStringSlice (C w) (Country name),
                 Province := whitelistStringSlice (ST w) (Province name),
                 Locality := whitelistStringSlice (L w) (Locality name),
                 Organization := whitelistStringSlice (O' w) (Organization name),
                 OrganizationalUnit := whitelistStringSlice (OU w) (OrganizationalUnit name)\<rparr>))"

definition PopulateSubjectFromCSR :: "'n externals \<Rightarrow> 'n Subject option \<Rightarrow> pkix_Name \<Rightarrow> pkix_Name" where
  "PopulateSubjectFromCSR X s req =
    (case s of
       None \<Rightarrow> req
     | Some s' \<Rightarrow>
        (let req' = whitelistRequest s req in
         if length (Names s') = 0 then req'
         else
           (let name = Subject_Name X s';
                name = (if CommonName name = [] then name\<lparr>CommonName := CommonName req'\<rparr> else name);
                name = name\<lparr>Country := replaceSliceIfEmpty (Country name) (Country req')\<rparr>;
                name = name\<lparr>Province := replaceSliceIfEmpty (Province name) (Province req')\<rparr>;
                name = name\<lparr>Locality := replaceSliceIfEmpty (Locality name) (Locality req')\<rparr>;
                name = name\<lparr>Organization :=
                         replaceSliceIfEmpty (Organization name) (Organization req')\<rparr>;
                name = name\<lparr>OrganizationalUnit :=
                         replaceSliceIfEmpty (OrganizationalUnit name) (OrganizationalUnit req')\<rparr>
            in name)))"

subsection \<open>The host classifier\<close>

text \<open>The loop of \<open>OverrideHosts\<close> over the host strings, in order.\<close>

fun classify :: "(string \<Rightarrow> net_IP option) \<Rightarrow> string list \<Rightarrow> Certificate \<Rightarrow> Certificate" where
  "classify parse [] template = template"
| "classify parse (h # hs) template =
     classify parse hs
       (case parse h of
          Some ip \<Rightarrow> template\<lparr>IPAddresses := append_slice (IPAddresses template) ip\<rparr>
        | None \<Rightarrow> template\<lparr>DNSNames := append_slice (DNSNames template) h\<rparr>)"

definition OverrideHosts :: "'n externals \<Rightarrow> string slice \<Rightarrow> Certificate \<Rightarrow> Certificate" where
  "OverrideHosts X hosts template =
    (let template' =
       (case hosts of
          None \<Rightarrow> template
        | Some _ \<Rightarrow> template\<lparr>IPAddresses := Some [], DNSNames := Some []\<rparr>)
     in classify (ParseIP X) (elems hosts) template')"

subsection \<open>\<open>Sign\<close>\<close>

definition Sign ::
  "'n externals \<Rightarrow> Signer \<Rightarrow> 'n SignRequest \<Rightarrow> store \<Rightarrow> (failure + bytes) \<times> Signer \<times> store"
where
  "Sign X s req \<sigma> =
    (case policy s of
       None \<Rightarrow> (Inl NilDereference, s, \<sigma>)
     | Some pol \<Rightarrow>
        (let profile = Profiles pol (Profile req);
             profile = (case profile of None \<Rightarrow> Default pol | Some p \<Rightarrow> Some p)
         in case profile of
              None \<Rightarrow> (Inl NilDereference, s, \<sigma>)
            | Some prof \<Rightarrow>
               (let serialSeq = (if UseSerialSeq prof then SerialSeq req else [])
                in case pem_Decode X (Request req) of
                     None \<Rightarrow> (Inl (Error (cferr_New CertificateError DecodeFailed)), s, \<sigma>)
                   | Some block \<Rightarrow>
                      if Type block \<noteq> ''CERTIFICATE REQUEST''
                      then (Inl (Error (cferr_Wrap CertificateError BadRequest
                                          (errors_New ''not a certificate or csr''))), s, \<sigma>)
                      else
                        (case ParseCertificateRequest X s (Bytes block) of
                           Inl err \<Rightarrow> (Inl (Error err), s, \<sigma>)
                         | Inr parsed \<Rightarrow>
                            (let (template, \<sigma>1) = new parsed \<sigma>;
                                 \<sigma>2 = upd template (OverrideHosts X (Hosts req)) \<sigma>1;
                                 \<sigma>3 = upd template
                                        (\<lambda>c. c\<lparr>Subject :=
                                                 PopulateSubjectFromCSR X (Subject_override req) (Subject c)\<rparr>)
                                        \<sigma>2
                             in sign X s template profile serialSeq \<sigma>3)))))"

section \<open>Sample collaborators and inputs\<close>

text \<open>
  One concrete choice of the collaborators, and one signer, template and store, on which the
  model can be run: a filler that only sets the serial number, a signing primitive and a
  parser that always succeed, a decoder that knows two inputs, and \<open>Subject.Name\<close> as the
  first override identity.
\<close>

definition sample_name :: pkix_Name where
  "sample_name =
    \<lparr>CommonName = ''req-cn'', Country = Some [''US''], Province = None, Locality = None,
     Organization = Some [''req-org''], OrganizationalUnit = None\<rparr>"

definition sample_template :: Certificate where
  "sample_template =
    \<lparr>Subject = sample_name, DNSNames = Some [''ca.example.com''], IPAddresses = None,
     SerialNumber = 0, IsCA = True, MaxPathLen = 0, PublicKey = ''pub''\<rparr>"

definition sample_root :: Certificate where
  "sample_root = sample_template\<lparr>DNSNames := None, SerialNumber := 1, MaxPathLen := 2\<rparr>"

definition sample_policy :: Signing where
  "sample_policy = \<lparr>Profiles = Map.empty, Default = Some \<lparr>UseSerialSeq = False\<rparr>\<rparr>"

definition sample_signer :: Signer where
  "sample_signer = \<lparr>ca = None, priv = ''key'', policy = Some sample_policy, sigAlgo = 0\<rparr>"

definition sample_store :: store where
  "sample_store = \<lparr>cells = (\<lambda>_. sample_template), used = 1\<rparr>"

definition sample_externals :: "pkix_Name externals" where
  "sample_externals =
    \<lparr>FillTemplate = (\<lambda>t d p q. (None, t\<lparr>SerialNumber := 1\<rparr>)),
     CreateCertificate = (\<lambda>t parent pub k. Inr ''DER''),
     ParseCertificate = (\<lambda>b. Inr sample_root),
     ParseCertificateRequest = (\<lambda>s b. Inr sample_template),
     pem_Decode =
       (\<lambda>b. if b = ''csr'' then Some \<lparr>Type = ''CERTIFICATE REQUEST'', Bytes = ''req''\<rparr>
            else if b = ''crt'' then Some \<lparr>Type = ''CERTIFICATE'', Bytes = ''cert''\<rparr>
            else None),
     pem_EncodeToMemory = (\<lambda>b. Type b @ Bytes b),
     ParseIP = (\<lambda>h. if h = ''10.0.0.1'' then Some [10, 0, 0, 1] else None),
     Valid = (\<lambda>p. case p of None \<Rightarrow> False | Some pol \<Rightarrow> Default pol \<noteq> None),
     DefaultConfig = Some \<lparr>UseSerialSeq = False\<rparr>,
     signer_MaxPathLen = 2,
     Subject_Name = (\<lambda>s. case Names s of [] \<Rightarrow> sample_name | n # _ \<Rightarrow> n)\<rparr>"

section \<open>The paths through \<open>sign\<close>\<close>

text \<open>
  One equation per way out of \<open>sign\<close> on an engine without a CA certificate. \<open>t\<close> is the
  template as the filler leaves it and \<open>t'\<close> the template as the hierarchy guard leaves it.
\<close>

lemma sign_filler_error:
  assumes "policy s = Some pol"
    and "FillTemplate X (cells \<sigma> template) (Default pol) profile serialSeq = (Some err, t)"
  shows "sign X s template profile serialSeq \<sigma> = (Inl (Error err), s, upd template (\<lambda>_. t) \<sigma>)"
  using assms by (simp add: sign_def)

lemma sign_bootstrap_rejected:
  assumes "policy s = Some pol"
    and "FillTemplate X (cells \<sigma> template) (Default pol) profile serialSeq = (None, t)"
    and "ca s = None" and "\<not> IsCA t"
  shows "sign X s template profile serialSeq \<sigma> =
           (Inl (Error (cferr_New PolicyError InvalidRequest)), s, upd template (\<lambda>_. t) \<sigma>)"
  using assms by (simp add: sign_def upd_def)

text \<open>
  When the signing primitive fails during a bootstrap, the signer is left holding the
  template's address: line 93 stored it and the return at line 103 does not take it back.
\<close>

lemma sign_bootstrap_create_error:
  assumes "policy s = Some pol"
    and "FillTemplate X (cells \<sigma> template) (Default pol) profile serialSeq = (None, t)"
    and "ca s = None" and "IsCA t"
    and "t' = t\<lparr>DNSNames := None, MaxPathLen := signer_MaxPathLen X\<rparr>"
    and "CreateCertificate X t' t' (PublicKey t) (priv s) = Inl err"
  shows "sign X s template profile serialSeq \<sigma> =
           (Inl (Error (cferr_Wrap CertificateError Unknown err)), s\<lparr>ca := Some template\<rparr>,
            upd template (\<lambda>_. t') \<sigma>)"
  using assms by (simp add: sign_def upd_def Let_def)

text \<open>
  When the re-parse fails, \<open>s.ca\<close> receives the nil that comes with the error, so the
  signer is as it was before the call.
\<close>

lemma sign_bootstrap_parse_error:
  assumes "policy s = Some pol"
    and "FillTemplate X (cells \<sigma> template) (Default pol) profile serialSeq = (None, t)"
    and "ca s = None" and "IsCA t"
    and "t' = t\<lparr>DNSNames := None, MaxPathLen := signer_MaxPathLen X\<rparr>"
    and "CreateCertificate X t' t' (PublicKey t) (priv s) = Inr derBytes"
    and "ParseCertificate X derBytes = Inl err"
  shows "sign X s template profile serialSeq \<sigma> =
           (Inl (Error (cferr_Wrap CertificateError ParseFailed err)), s,
            upd template (\<lambda>_. t') \<sigma>)"
  using assms by (simp add: sign_def upd_def Let_def)

lemma sign_bootstrap_success:
  assumes "policy s = Some pol"
    and "FillTemplate X (cells \<sigma> template) (Default pol) profile serialSeq = (None, t)"
    and "ca s = None" and "IsCA t"
    and "t' = t\<lparr>DNSNames := None, MaxPathLen := signer_MaxPathLen X\<rparr>"
    and "CreateCertificate X t' t' (PublicKey t) (priv s) = Inr derBytes"
    and "ParseCertificate X derBytes = Inr parsed"
  shows "sign X s template profile serialSeq \<sigma> =
           (Inr (pem_EncodeToMemory X \<lparr>Type = ''CERTIFICATE'', Bytes = derBytes\<rparr>),
            s\<lparr>ca := Some (used \<sigma>)\<rparr>,
            snd (new parsed (upd template (\<lambda>_. t') \<sigma>)))"
  using assms by (simp add: sign_def upd_def Let_def new_def)

text \<open>On an engine that holds a CA certificate no path of \<open>sign\<close> writes \<open>s.ca\<close>.\<close>

lemma sign_with_ca_keeps_signer:
  assumes "ca s = Some parent"
    and "sign X s template profile serialSeq \<sigma> = (r, s', \<sigma>')"
  shows "s' = s"
  using assms
  by (auto simp: sign_def Let_def split: option.splits prod.splits sum.splits if_splits)

text \<open>
  On an engine that holds a CA certificate, a template that leaves the filler with \<open>IsCA\<close>
  set comes out of \<open>sign\<close> with path length 1 and a nil DNS-name list.
\<close>

lemma sign_with_ca_IsCA:
  assumes "ca s = Some parent"
    and "policy s = Some pol"
    and "FillTemplate X (cells \<sigma> template) (Default pol) profile serialSeq = (None, t)"
    and "IsCA t"
  shows "case sign X s template profile serialSeq \<sigma> of
           (r, s', \<sigma>') \<Rightarrow>
             MaxPathLen (cells \<sigma>' template) = 1 \<and> DNSNames (cells \<sigma>' template) = None
             \<and> ca s' = Some parent"
  using assms
  by (simp add: sign_def upd_def Let_def split: sum.splits)

text \<open>
  C1. A \<open>sign\<close> that returns an error leaves \<open>s.ca\<close> as it was. The code does not: on an
  engine with no CA certificate, a CA template and a signing primitive that fails, the call
  returns \<open>CertificateError/Unknown\<close> and \<open>s.ca\<close> is the template's address (0 here), no
  longer nil.
\<close>

theorem failed_bootstrap_leaves_template_as_ca:
  "ca sample_signer = None \<and>
   (case sign (sample_externals\<lparr>CreateCertificate :=
                  \<lambda>t parent pub k. Inl (errors_New ''no signature'')\<rparr>)
           sample_signer 0 None [] sample_store of
      (r, s', \<sigma>') \<Rightarrow>
        r = Inl (Error (cferr_Wrap CertificateError Unknown (errors_New ''no signature'')))
        \<and> ca s' = Some 0)"
  by (simp add: sign_def sample_signer_def sample_externals_def sample_store_def
      sample_policy_def sample_template_def upd_def)

text \<open>
  C2. On an engine with no CA certificate, whenever \<open>sign\<close> succeeds on a live template:
  the filled template had \<open>IsCA\<close> set; the template now has a nil DNS-name list and the
  path length \<open>signer.MaxPathLen\<close>; the signing primitive was given that template both as
  template and as parent; the returned bytes are the PEM encoding of its DER output; and
  \<open>s.ca\<close> is a new object holding the certificate parsed back from those DER bytes.
\<close>

theorem root_bootstrap:
  assumes "ca s = None"
    and "template < used \<sigma>"
    and "sign X s template profile serialSeq \<sigma> = (Inr cert, s', \<sigma>')"
  shows "\<exists>pol t derBytes parsed p.
           policy s = Some pol
           \<and> FillTemplate X (cells \<sigma> template) (Default pol) profile serialSeq = (None, t)
           \<and> IsCA t
           \<and> cells \<sigma>' template = t\<lparr>DNSNames := None, MaxPathLen := signer_MaxPathLen X\<rparr>
           \<and> CreateCertificate X (cells \<sigma>' template) (cells \<sigma>' template)
                (PublicKey (cells \<sigma>' template)) (priv s) = Inr derBytes
           \<and> cert = pem_EncodeToMemory X \<lparr>Type = ''CERTIFICATE'', Bytes = derBytes\<rparr>
           \<and> ParseCertificate X derBytes = Inr parsed
           \<and> ca s' = Some p \<and> p \<noteq> template \<and> cells \<sigma>' p = parsed"
proof -
  from assms(3) obtain pol where pol: "policy s = Some pol"
    by (auto simp: sign_def split: option.splits)
  obtain e t where fill: "FillTemplate X (cells \<sigma> template) (Default pol) profile serialSeq = (e, t)"
    by (cases "FillTemplate X (cells \<sigma> template) (Default pol) profile serialSeq")
  from assms(3) pol fill have e: "e = None"
    by (cases e) (auto simp: sign_def)
  have isca: "IsCA t"
  proof (rule ccontr)
    assume "\<not> IsCA t"
    from sign_bootstrap_rejected [OF pol fill [unfolded e] assms(1) this] assms(3)
    show False by simp
  qed
  define t' where "t' = t\<lparr>DNSNames := None, MaxPathLen := signer_MaxPathLen X\<rparr>"
  show ?thesis
  proof (cases "CreateCertificate X t' t' (PublicKey t) (priv s)")
    case (Inl err)
    from sign_bootstrap_create_error [OF pol fill [unfolded e] assms(1) isca t'_def Inl] assms(3)
    show ?thesis by simp
  next
    case (Inr derBytes)
    show ?thesis
    proof (cases "ParseCertificate X derBytes")
      case (Inl err)
      from sign_bootstrap_parse_error [OF pol fill [unfolded e] assms(1) isca t'_def Inr Inl] assms(3)
      show ?thesis by simp
    next
      case parsed: (Inr parsed)
      from sign_bootstrap_success [OF pol fill [unfolded e] assms(1) isca t'_def Inr parsed] assms(3)
      have r: "cert = pem_EncodeToMemory X \<lparr>Type = ''CERTIFICATE'', Bytes = derBytes\<rparr>"
        and s': "s' = s\<lparr>ca := Some (used \<sigma>)\<rparr>"
        and \<sigma>': "\<sigma>' = snd (new parsed (upd template (\<lambda>_. t') \<sigma>))"
        by simp_all
      from \<sigma>' assms(2) have c1: "cells \<sigma>' template = t'" and c2: "cells \<sigma>' (used \<sigma>) = parsed"
        by (simp_all add: new_def upd_def)
      from pol fill e isca c1 c2 Inr parsed r s' assms(2) show ?thesis
        by (simp add: t'_def)
    qed
  qed
qed

theorem root_bootstrap_witness:
  "\<exists>cert s' \<sigma>'.
     ca sample_signer = None \<and> 0 < used sample_store
     \<and> sign sample_externals sample_signer 0 None [] sample_store = (Inr cert, s', \<sigma>')
     \<and> DNSNames (cells \<sigma>' 0) = None \<and> MaxPathLen (cells \<sigma>' 0) = 2
     \<and> (\<exists>p. ca s' = Some p \<and> p \<noteq> 0 \<and> cells \<sigma>' p = sample_root)"
proof -
  have h1: "ca sample_signer = None"
    by (simp add: sample_signer_def)
  have h2: "0 < used sample_store"
    by (simp add: sample_store_def)
  obtain r s' \<sigma>' where e: "sign sample_externals sample_signer 0 None [] sample_store = (r, s', \<sigma>')"
    by (cases "sign sample_externals sample_signer 0 None [] sample_store")
  then have "r = Inr (''CERTIFICATE'' @ ''DER'')"
    by (simp add: sign_def sample_signer_def sample_externals_def sample_store_def
        sample_policy_def sample_template_def upd_def new_def)
  with e have h3: "sign sample_externals sample_signer 0 None [] sample_store =
      (Inr (''CERTIFICATE'' @ ''DER''), s', \<sigma>')"
    by simp
  from root_bootstrap [OF h1 h2 h3] obtain t d parsed p
    where "cells \<sigma>' 0 = t\<lparr>DNSNames := None, MaxPathLen := signer_MaxPathLen sample_externals\<rparr>"
      and "ParseCertificate sample_externals d = Inr parsed"
      and "ca s' = Some p" "p \<noteq> 0" "cells \<sigma>' p = parsed"
    by blast
  then have "DNSNames (cells \<sigma>' 0) = None" "MaxPathLen (cells \<sigma>' 0) = 2"
    "\<exists>p. ca s' = Some p \<and> p \<noteq> 0 \<and> cells \<sigma>' p = sample_root"
    by (auto simp: sample_externals_def)
  with h1 h2 h3 show ?thesis by blast
qed

text \<open>
  C3. On an engine with no CA certificate, when the filler succeeds and the template it
  leaves has \<open>IsCA\<close> false, \<open>sign\<close> returns \<open>PolicyError/InvalidRequest\<close> and the signer is
  unchanged, so \<open>s.ca\<close> is still nil.
\<close>

theorem bootstrap_rejection:
  assumes "ca s = None"
    and "policy s = Some pol"
    and "FillTemplate X (cells \<sigma> template) (Default pol) profile serialSeq = (None, t)"
    and "\<not> IsCA t"
  shows "sign X s template profile serialSeq \<sigma> =
           (Inl (Error (cferr_New PolicyError InvalidRequest)), s, upd template (\<lambda>_. t) \<sigma>)
         \<and> ca (fst (snd (sign X s template profile serialSeq \<sigma>))) = None"
  using assms by (simp add: sign_def upd_def)

theorem bootstrap_rejection_witness:
  "ca sample_signer = None \<and> policy sample_signer = Some sample_policy
   \<and> FillTemplate sample_externals (cells (upd 0 (\<lambda>c. c\<lparr>IsCA := False\<rparr>) sample_store) 0)
        (Default sample_policy) None [] = (None, sample_template\<lparr>IsCA := False, SerialNumber := 1\<rparr>)
   \<and> \<not> IsCA (sample_template\<lparr>IsCA := False, SerialNumber := 1\<rparr>)
   \<and> fst (sign sample_externals sample_signer 0 None []
            (upd 0 (\<lambda>c. c\<lparr>IsCA := False\<rparr>) sample_store)) =
       Inl (Error (cferr_New PolicyError InvalidRequest))
   \<and> ca (fst (snd (sign sample_externals sample_signer 0 None []
                     (upd 0 (\<lambda>c. c\<lparr>IsCA := False\<rparr>) sample_store)))) = None"
proof -
  have h1: "ca sample_signer = None" and h2: "policy sample_signer = Some sample_policy"
    by (simp_all add: sample_signer_def)
  have h3: "FillTemplate sample_externals (cells (upd 0 (\<lambda>c. c\<lparr>IsCA := False\<rparr>) sample_store) 0)
        (Default sample_policy) None [] = (None, sample_template\<lparr>IsCA := False, SerialNumber := 1\<rparr>)"
    by (simp add: sample_externals_def sample_store_def upd_def)
  have h4: "\<not> IsCA (sample_template\<lparr>IsCA := False, SerialNumber := 1\<rparr>)"
    by simp
  from bootstrap_rejection [OF h1 h2 h3 h4] h1 h2 h3 h4 show ?thesis
    by simp
qed

text \<open>
  C4. On an engine that holds a CA certificate, when the filler succeeds and the template it
  leaves has \<open>IsCA\<close> true, the template after \<open>sign\<close> has path length exactly 1 and a nil
  (hence empty) DNS-name list, whatever the template held before and whether or not the
  signing primitive succeeds; \<open>s.ca\<close> is unchanged.
\<close>

theorem intermediate_constraint:
  assumes "ca s = Some parent"
    and "policy s = Some pol"
    and "FillTemplate X (cells \<sigma> template) (Default pol) profile serialSeq = (None, t)"
    and "IsCA t"
  shows "case sign X s template profile serialSeq \<sigma> of
           (r, s', \<sigma>') \<Rightarrow>
             MaxPathLen (cells \<sigma>' template) = 1 \<and> DNSNames (cells \<sigma>' template) = None
             \<and> len (DNSNames (cells \<sigma>' template)) = 0 \<and> ca s' = Some parent"
  using sign_with_ca_IsCA [OF assms]
  by (auto simp: len_def elems_def)

theorem intermediate_constraint_witness:
  "ca (sample_signer\<lparr>ca := Some 1\<rparr>) = Some 1
   \<and> policy (sample_signer\<lparr>ca := Some 1\<rparr>) = Some sample_policy
   \<and> FillTemplate sample_externals (cells sample_store 0) (Default sample_policy) None [] =
       (None, sample_template\<lparr>SerialNumber := 1\<rparr>)
   \<and> IsCA (sample_template\<lparr>SerialNumber := 1\<rparr>)
   \<and> (case sign sample_externals (sample_signer\<lparr>ca := Some 1\<rparr>) 0 None [] sample_store of
         (r, s', \<sigma>') \<Rightarrow>
           MaxPathLen (cells \<sigma>' 0) = 1 \<and> DNSNames (cells \<sigma>' 0) = None
           \<and> len (DNSNames (cells \<sigma>' 0)) = 0 \<and> ca s' = Some 1)"
proof -
  have h1: "ca (sample_signer\<lparr>ca := Some 1\<rparr>) = Some 1"
    and h2: "policy (sample_signer\<lparr>ca := Some 1\<rparr>) = Some sample_policy"
    by (simp_all add: sample_signer_def)
  have h3: "FillTemplate sample_externals (cells sample_store 0) (Default sample_policy) None [] =
       (None, sample_template\<lparr>SerialNumber := 1\<rparr>)"
    by (simp add: sample_externals_def sample_store_def)
  have h4: "IsCA (sample_template\<lparr>SerialNumber := 1\<rparr>)"
    by (simp add: sample_template_def)
  from intermediate_constraint [OF h1 h2 h3 h4] h1 h2 h3 h4 show ?thesis
    by blast
qed

section \<open>\<open>Sign\<close>\<close>

text \<open>
  Once the request decodes to a certificate request and parses, \<open>Sign\<close> is \<open>sign\<close> on a
  new template: the parsed one with the hosts and then the subject overridden.
\<close>

lemma Sign_reaches_sign:
  assumes "policy s = Some pol"
    and "(case Profiles pol (Profile req) of None \<Rightarrow> Default pol | Some p \<Rightarrow> Some p) = Some prof"
    and "pem_Decode X (Request req) = Some block"
    and "Type block = ''CERTIFICATE REQUEST''"
    and "ParseCertificateRequest X s (Bytes block) = Inr parsed"
  shows "Sign X s req \<sigma> =
           sign X s (used \<sigma>) (Some prof) (if UseSerialSeq prof then SerialSeq req else [])
             (snd (new ((OverrideHosts X (Hosts req) parsed)
                          \<lparr>Subject := PopulateSubjectFromCSR X (Subject_override req)
                                        (Subject (OverrideHosts X (Hosts req) parsed))\<rparr>) \<sigma>))"
proof -
  have "upd (used \<sigma>)
          (\<lambda>c. c\<lparr>Subject := PopulateSubjectFromCSR X (Subject_override req) (Subject c)\<rparr>)
          (upd (used \<sigma>) (OverrideHosts X (Hosts req)) (snd (new parsed \<sigma>))) =
        snd (new ((OverrideHosts X (Hosts req) parsed)
                    \<lparr>Subject := PopulateSubjectFromCSR X (Subject_override req)
                                  (Subject (OverrideHosts X (Hosts req) parsed))\<rparr>) \<sigma>)"
    by (simp add: new_def upd_def)
  with assms show ?thesis
    by (simp add: Sign_def Let_def split_def) (simp add: new_def)
qed

text \<open>
  So the constraint on an intermediate CA holds for whole requests, whatever host list and
  subject they carry: \<open>sign\<close> overwrites what \<open>OverrideHosts\<close> put into the DNS names.
\<close>

lemma Sign_intermediate:
  assumes "ca s = Some parent"
    and "policy s = Some pol"
    and "(case Profiles pol (Profile req) of None \<Rightarrow> Default pol | Some p \<Rightarrow> Some p) = Some prof"
    and "pem_Decode X (Request req) = Some block"
    and "Type block = ''CERTIFICATE REQUEST''"
    and "ParseCertificateRequest X s (Bytes block) = Inr parsed"
    and "FillTemplate X
           ((OverrideHosts X (Hosts req) parsed)
              \<lparr>Subject := PopulateSubjectFromCSR X (Subject_override req)
                            (Subject (OverrideHosts X (Hosts req) parsed))\<rparr>)
           (Default pol) (Some prof)
           (if UseSerialSeq prof then SerialSeq req else []) = (None, t)"
    and "IsCA t"
  shows "case Sign X s req \<sigma> of
           (r, s', \<sigma>') \<Rightarrow>
             MaxPathLen (cells \<sigma>' (used \<sigma>)) = 1 \<and> DNSNames (cells \<sigma>' (used \<sigma>)) = None
             \<and> ca s' = Some parent"
proof -
  let ?\<sigma> = "snd (new ((OverrideHosts X (Hosts req) parsed)
                          \<lparr>Subject := PopulateSubjectFromCSR X (Subject_override req)
                                        (Subject (OverrideHosts X (Hosts req) parsed))\<rparr>) \<sigma>)"
  have c: "cells ?\<sigma> (used \<sigma>) = (OverrideHosts X (Hosts req) parsed)
                          \<lparr>Subject := PopulateSubjectFromCSR X (Subject_override req)
                                        (Subject (OverrideHosts X (Hosts req) parsed))\<rparr>"
    by (simp add: new_def)
  have fill: "FillTemplate X (cells ?\<sigma> (used \<sigma>)) (Default pol) (Some prof)
           (if UseSerialSeq prof then SerialSeq req else []) = (None, t)"
    unfolding c by (rule assms(7))
  from sign_with_ca_IsCA [OF assms(1,2) fill assms(8)]
  show ?thesis
    by (simp only: Sign_reaches_sign [OF assms(2-6)])
qed

text \<open>Before it looks at the request bytes, \<open>Sign\<close> dereferences the policy.\<close>

lemma Sign_nil_policy:
  "policy s = None \<Longrightarrow> Sign X s req \<sigma> = (Inl NilDereference, s, \<sigma>)"
  by (simp add: Sign_def)

text \<open>
  C9. On an engine whose policy is present and resolves the request's profile (the named
  profile or else the default is non-nil): when \<open>pem.Decode\<close> finds no block, \<open>Sign\<close>
  returns \<open>CertificateError/DecodeFailed\<close>; when the first block's type is not
  \<open>CERTIFICATE REQUEST\<close>, it returns \<open>CertificateError/BadRequest\<close>. In both cases no
  bytes are returned, no template is allocated and the signer is unchanged.
\<close>

theorem Sign_decode_failures:
  assumes "policy s = Some pol"
    and "Profiles pol (Profile req) \<noteq> None \<or> Default pol \<noteq> None"
  shows "(pem_Decode X (Request req) = None \<longrightarrow>
            Sign X s req \<sigma> = (Inl (Error (cferr_New CertificateError DecodeFailed)), s, \<sigma>))
         \<and> (\<forall>block. pem_Decode X (Request req) = Some block \<and> Type block \<noteq> ''CERTIFICATE REQUEST'' \<longrightarrow>
            Sign X s req \<sigma> =
              (Inl (Error (cferr_Wrap CertificateError BadRequest
                             (errors_New ''not a certificate or csr''))), s, \<sigma>))"
  using assms
  by (auto simp: Sign_def Let_def split: option.splits)

theorem Sign_decode_failures_witness:
  "policy sample_signer = Some sample_policy
   \<and> Default sample_policy \<noteq> None
   \<and> pem_Decode sample_externals ''not pem'' = None
   \<and> Sign sample_externals sample_signer
        \<lparr>Hosts = None, Request = ''not pem'', Subject_override = None, Profile = ''www'',
         SerialSeq = []\<rparr> sample_store =
       (Inl (Error (cferr_New CertificateError DecodeFailed)), sample_signer, sample_store)
   \<and> pem_Decode sample_externals ''crt'' = Some \<lparr>Type = ''CERTIFICATE'', Bytes = ''cert''\<rparr>
   \<and> Sign sample_externals sample_signer
        \<lparr>Hosts = None, Request = ''crt'', Subject_override = None, Profile = ''www'',
         SerialSeq = []\<rparr> sample_store =
       (Inl (Error (cferr_Wrap CertificateError BadRequest (errors_New ''not a certificate or csr''))),
        sample_signer, sample_store)"
proof -
  have h1: "policy sample_signer = Some sample_policy"
    by (simp add: sample_signer_def)
  have h2: "Default sample_policy \<noteq> None"
    by (simp add: sample_policy_def)
  have h3: "pem_Decode sample_externals ''not pem'' = None"
    and h4: "pem_Decode sample_externals ''crt'' = Some \<lparr>Type = ''CERTIFICATE'', Bytes = ''cert''\<rparr>"
    by (simp_all add: sample_externals_def)
  from Sign_decode_failures [OF h1, of "\<lparr>Hosts = None, Request = ''not pem'', Subject_override = None,
         Profile = ''www'', SerialSeq = []\<rparr>" sample_externals sample_store] h2 h3
  have a: "Sign sample_externals sample_signer
        \<lparr>Hosts = None, Request = ''not pem'', Subject_override = None, Profile = ''www'',
         SerialSeq = []\<rparr> sample_store =
       (Inl (Error (cferr_New CertificateError DecodeFailed)), sample_signer, sample_store)"
    by simp
  from Sign_decode_failures [OF h1, of "\<lparr>Hosts = None, Request = ''crt'', Subject_override = None,
         Profile = ''www'', SerialSeq = []\<rparr>" sample_externals sample_store] h2 h4
  have b: "Sign sample_externals sample_signer
        \<lparr>Hosts = None, Request = ''crt'', Subject_override = None, Profile = ''www'',
         SerialSeq = []\<rparr> sample_store =
       (Inl (Error (cferr_Wrap CertificateError BadRequest (errors_New ''not a certificate or csr''))),
        sample_signer, sample_store)"
    by simp
  from a b h1 h2 h3 h4 show ?thesis by blast
qed

section \<open>The \<open>Certificate\<close> accessor\<close>

text \<open>
  C10. \<open>Certificate\<close> dereferences \<open>s.ca\<close> unconditionally. With \<open>s.ca\<close> nil the call
  panics with a nil dereference and returns no error value. With \<open>s.ca\<close> at \<open>p\<close> it
  returns, with a nil error and for any label and profile, the address of a newly allocated
  object whose contents equal those of \<open>p\<close>; every other object is untouched, and the new
  address differs from \<open>p\<close> when \<open>p\<close> is a live object.
\<close>

theorem Certificate_dereferences_ca:
  "(ca s = None \<longrightarrow> Certificate_of s label profile \<sigma> = (Inl NilDereference, \<sigma>))
   \<and> (\<forall>p. ca s = Some p \<longrightarrow>
        (\<exists>cert \<sigma>'. Certificate_of s label profile \<sigma> = (Inr cert, \<sigma>')
           \<and> cert = used \<sigma>
           \<and> cells \<sigma>' cert = cells \<sigma> p
           \<and> (\<forall>q. q \<noteq> cert \<longrightarrow> cells \<sigma>' q = cells \<sigma> q)
           \<and> (p < used \<sigma> \<longrightarrow> cert \<noteq> p)))"
  by (auto simp: Certificate_of_def new_def)

theorem Certificate_dereferences_ca_witness:
  "ca sample_signer = None
   \<and> Certificate_of sample_signer ''label'' ''profile'' sample_store = (Inl NilDereference, sample_store)
   \<and> ca (sample_signer\<lparr>ca := Some 0\<rparr>) = Some 0
   \<and> (\<exists>cert \<sigma>'. Certificate_of (sample_signer\<lparr>ca := Some 0\<rparr>) ''label'' ''profile'' sample_store =
         (Inr cert, \<sigma>') \<and> cert \<noteq> 0 \<and> cells \<sigma>' cert = sample_template
         \<and> cells \<sigma>' 0 = sample_template)"
proof -
  have h1: "ca sample_signer = None" and h2: "ca (sample_signer\<lparr>ca := Some 0\<rparr>) = Some 0"
    by (simp_all add: sample_signer_def)
  have h3: "0 < used sample_store" and h4: "cells sample_store 0 = sample_template"
    by (simp_all add: sample_store_def)
  from Certificate_dereferences_ca [of sample_signer "''label''" "''profile''" sample_store] h1
  have a: "Certificate_of sample_signer ''label'' ''profile'' sample_store =
             (Inl NilDereference, sample_store)"
    by simp
  from Certificate_dereferences_ca
         [of "sample_signer\<lparr>ca := Some 0\<rparr>" "''label''" "''profile''" sample_store] h2 h3 h4
  have b: "\<exists>cert \<sigma>'. Certificate_of (sample_signer\<lparr>ca := Some 0\<rparr>) ''label'' ''profile'' sample_store =
         (Inr cert, \<sigma>') \<and> cert \<noteq> 0 \<and> cells \<sigma>' cert = sample_template
         \<and> cells \<sigma>' 0 = sample_template"
    by metis
  from a b h1 h2 show ?thesis by blast
qed

section \<open>The policy\<close>

text \<open>
  C5, as the code has it. \<open>NewSigner\<close> consults \<open>Valid\<close> on the policy it is given, or on
  the default policy it substitutes for nil: an invalid one is rejected with
  \<open>PolicyError/InvalidPolicy\<close>, a valid one is installed. \<open>SetPolicy\<close> does not consult
  \<open>Valid\<close>: it has no error result and installs whatever it is given.
\<close>

theorem policy_checked_at_construction:
  "(\<not> Valid X (Some p) \<longrightarrow>
      NewSigner X k cert alg (Some p) = Inl (cferr_New PolicyError InvalidPolicy))
   \<and> (Valid X (Some p) \<longrightarrow>
      NewSigner X k cert alg (Some p) = Inr \<lparr>ca = cert, priv = k, policy = Some p, sigAlgo = alg\<rparr>)
   \<and> (\<not> Valid X (Some \<lparr>Profiles = Map.empty, Default = DefaultConfig X\<rparr>) \<longrightarrow>
      NewSigner X k cert alg None = Inl (cferr_New PolicyError InvalidPolicy))
   \<and> (Valid X (Some \<lparr>Profiles = Map.empty, Default = DefaultConfig X\<rparr>) \<longrightarrow>
      NewSigner X k cert alg None =
        Inr \<lparr>ca = cert, priv = k,
             policy = Some \<lparr>Profiles = Map.empty, Default = DefaultConfig X\<rparr>, sigAlgo = alg\<rparr>)
   \<and> SetPolicy s q = s\<lparr>policy := q\<rparr>
   \<and> Policy (SetPolicy s q) = q"
  by (simp add: NewSigner_def SetPolicy_def Policy_def)

theorem policy_checked_at_construction_witness:
  "\<not> Valid sample_externals (Some \<lparr>Profiles = Map.empty, Default = None\<rparr>)
   \<and> NewSigner sample_externals ''key'' None 0 (Some \<lparr>Profiles = Map.empty, Default = None\<rparr>) =
       Inl (cferr_New PolicyError InvalidPolicy)
   \<and> Valid sample_externals (Some sample_policy)
   \<and> NewSigner sample_externals ''key'' None 0 (Some sample_policy) = Inr sample_signer
   \<and> Valid sample_externals (Some \<lparr>Profiles = Map.empty, Default = DefaultConfig sample_externals\<rparr>)
   \<and> NewSigner sample_externals ''key'' None 0 None = Inr sample_signer
   \<and> Policy (SetPolicy sample_signer (Some \<lparr>Profiles = Map.empty, Default = None\<rparr>)) =
       Some \<lparr>Profiles = Map.empty, Default = None\<rparr>"
proof -
  have h1: "\<not> Valid sample_externals (Some \<lparr>Profiles = Map.empty, Default = None\<rparr>)"
    and h2: "Valid sample_externals (Some sample_policy)"
    and h3: "Valid sample_externals
               (Some \<lparr>Profiles = Map.empty, Default = DefaultConfig sample_externals\<rparr>)"
    by (simp_all add: sample_externals_def sample_policy_def)
  have d: "\<lparr>Profiles = Map.empty, Default = DefaultConfig sample_externals\<rparr> = sample_policy"
    by (simp add: sample_externals_def sample_policy_def)
  from policy_checked_at_construction
         [of sample_externals "\<lparr>Profiles = Map.empty, Default = None\<rparr>" "''key''" None 0
             sample_signer "Some \<lparr>Profiles = Map.empty, Default = None\<rparr>"] h1
  have a: "NewSigner sample_externals ''key'' None 0 (Some \<lparr>Profiles = Map.empty, Default = None\<rparr>) =
             Inl (cferr_New PolicyError InvalidPolicy)"
    and b: "Policy (SetPolicy sample_signer (Some \<lparr>Profiles = Map.empty, Default = None\<rparr>)) =
             Some \<lparr>Profiles = Map.empty, Default = None\<rparr>"
    by blast+
  from policy_checked_at_construction
         [of sample_externals sample_policy "''key''" None 0 sample_signer None] h2 h3
  have c: "NewSigner sample_externals ''key'' None 0 (Some sample_policy) = Inr sample_signer"
    and e: "NewSigner sample_externals ''key'' None 0 None = Inr sample_signer"
    by (simp_all add: d sample_signer_def)
  from a b c e h1 h2 h3 show ?thesis
    by blast
qed

text \<open>
  C5 as stated fails at the setter: the nil policy is invalid, and \<open>SetPolicy\<close> replaces a
  valid policy by it.
\<close>

theorem SetPolicy_accepts_invalid_policy:
  "\<not> Valid sample_externals None
   \<and> Policy sample_signer = Some sample_policy
   \<and> Policy (SetPolicy sample_signer None) = None"
  by (simp add: sample_externals_def SetPolicy_def Policy_def sample_signer_def)

section \<open>The subject reconciler\<close>

text \<open>
  C6. When the override carries at least one identity, the result is the identity
  \<open>s.Name()\<close> built from the override, in which exactly the empty fields are replaced:
  a non-empty \<open>CommonName\<close> or sequence field of the override identity is kept, an empty
  one takes the value of the whitelisted CSR identity.
\<close>

theorem override_precedence:
  assumes "Names s \<noteq> []"
  shows "PopulateSubjectFromCSR X (Some s) req =
           (let name = Subject_Name X s; req' = whitelistRequest (Some s) req in
            name\<lparr>CommonName := (if CommonName name = [] then CommonName req' else CommonName name),
                 Country := (if len (Country name) = 0 then Country req' else Country name),
                 Province := (if len (Province name) = 0 then Province req' else Province name),
                 Locality := (if len (Locality name) = 0 then Locality req' else Locality name),
                 Organization :=
                   (if len (Organization name) = 0 then Organization req' else Organization name),
                 OrganizationalUnit :=
                   (if len (OrganizationalUnit name) = 0 then OrganizationalUnit req'
                    else OrganizationalUnit name)\<rparr>)"
  using assms
  by (simp add: PopulateSubjectFromCSR_def Let_def replaceSliceIfEmpty_def)

theorem override_precedence_witness:
  "Names \<lparr>Whitelist = None,
          Names = [\<lparr>CommonName = [], Country = None, Province = None, Locality = None,
                    Organization = Some [''Policy''], OrganizationalUnit = None\<rparr>]\<rparr> \<noteq> []
   \<and> PopulateSubjectFromCSR sample_externals
        (Some \<lparr>Whitelist = None,
               Names = [\<lparr>CommonName = [], Country = None, Province = None, Locality = None,
                         Organization = Some [''Policy''], OrganizationalUnit = None\<rparr>]\<rparr>)
        \<lparr>CommonName = ''req-cn'', Country = None, Province = None, Locality = None,
         Organization = Some [''req-org''], OrganizationalUnit = None\<rparr> =
       \<lparr>CommonName = ''req-cn'', Country = None, Province = None, Locality = None,
        Organization = Some [''Policy''], OrganizationalUnit = None\<rparr>"
proof -
  let ?s = "\<lparr>Whitelist = None,
          Names = [\<lparr>CommonName = [], Country = None, Province = None, Locality = None,
                    Organization = Some [''Policy''], OrganizationalUnit = None\<rparr>]\<rparr>"
  have h: "Names ?s \<noteq> []" by simp
  from override_precedence [OF h, of sample_externals
      "\<lparr>CommonName = ''req-cn'', Country = None, Province = None, Locality = None,
         Organization = Some [''req-org''], OrganizationalUnit = None\<rparr>"] h
  show ?thesis
    by (simp add: sample_externals_def whitelistRequest_def len_def elems_def)
qed

text \<open>Whitelisting twice is whitelisting once.\<close>

lemma whitelistRequest_idem:
  "whitelistRequest s (whitelistRequest s req) = whitelistRequest s req"
  by (simp add: whitelistRequest_def whitelistString_def whitelistStringSlice_def
      split: option.splits)

text \<open>
  C7. With no override the CSR identity is returned unchanged. With a whitelist, each of the
  six fields whose flag is false is blanked (the empty string, or the empty non-nil
  sequence) and the others are kept; with no whitelist all fields are kept. The whitelist
  comes first: with no override identities the whitelisted identity is the result, and in
  every case the merge sees the CSR identity only through the whitelist.
\<close>

theorem whitelist_before_override:
  "PopulateSubjectFromCSR X None req = req
   \<and> (\<forall>w. Whitelist s = Some w \<longrightarrow>
        whitelistRequest (Some s) req =
          req\<lparr>CommonName := (if CN w then CommonName req else []),
              Country := (if C w then Country req else Some []),
              Province := (if ST w then Province req else Some []),
              Locality := (if L w then Locality req else Some []),
              Organization := (if O' w then Organization req else Some []),
              OrganizationalUnit := (if OU w then OrganizationalUnit req else Some [])\<rparr>)
   \<and> (Whitelist s = None \<longrightarrow> whitelistRequest (Some s) req = req)
   \<and> (Names s = [] \<longrightarrow> PopulateSubjectFromCSR X (Some s) req = whitelistRequest (Some s) req)
   \<and> PopulateSubjectFromCSR X (Some s) req =
       PopulateSubjectFromCSR X (Some s) (whitelistRequest (Some s) req)"
proof -
  have "PopulateSubjectFromCSR X None req = req"
    by (simp add: PopulateSubjectFromCSR_def)
  moreover have "\<forall>w. Whitelist s = Some w \<longrightarrow>
        whitelistRequest (Some s) req =
          req\<lparr>CommonName := (if CN w then CommonName req else []),
              Country := (if C w then Country req else Some []),
              Province := (if ST w then Province req else Some []),
              Locality := (if L w then Locality req else Some []),
              Organization := (if O' w then Organization req else Some []),
              OrganizationalUnit := (if OU w then OrganizationalUnit req else Some [])\<rparr>"
    by (simp add: whitelistRequest_def whitelistString_def whitelistStringSlice_def)
  moreover have "Whitelist s = None \<longrightarrow> whitelistRequest (Some s) req = req"
    by (simp add: whitelistRequest_def)
  moreover have "Names s = [] \<longrightarrow>
      PopulateSubjectFromCSR X (Some s) req = whitelistRequest (Some s) req"
    by (simp add: PopulateSubjectFromCSR_def)
  moreover have "PopulateSubjectFromCSR X (Some s) req =
       PopulateSubjectFromCSR X (Some s) (whitelistRequest (Some s) req)"
    by (simp add: PopulateSubjectFromCSR_def whitelistRequest_idem)
  ultimately show ?thesis by blast
qed

theorem whitelist_before_override_witness:
  "Whitelist \<lparr>Whitelist = Some \<lparr>CN = False, C = False, ST = False, L = False, O' = True, OU = False\<rparr>,
              Names = ([] :: pkix_Name list)\<rparr> =
     Some \<lparr>CN = False, C = False, ST = False, L = False, O' = True, OU = False\<rparr>
   \<and> PopulateSubjectFromCSR sample_externals
        (Some \<lparr>Whitelist = Some \<lparr>CN = False, C = False, ST = False, L = False, O' = True, OU = False\<rparr>,
               Names = []\<rparr>)
        \<lparr>CommonName = ''x'', Country = None, Province = None, Locality = None,
         Organization = Some [''Acme''], OrganizationalUnit = None\<rparr> =
       \<lparr>CommonName = [], Country = Some [], Province = Some [], Locality = Some [],
        Organization = Some [''Acme''], OrganizationalUnit = Some []\<rparr>
   \<and> Whitelist \<lparr>Whitelist = None, Names = ([] :: pkix_Name list)\<rparr> = None
   \<and> PopulateSubjectFromCSR sample_externals (Some \<lparr>Whitelist = None, Names = []\<rparr>) sample_name =
       sample_name
   \<and> PopulateSubjectFromCSR sample_externals None sample_name = sample_name"
proof -
  let ?w = "\<lparr>CN = False, C = False, ST = False, L = False, O' = True, OU = False\<rparr>"
  let ?s = "\<lparr>Whitelist = Some ?w, Names = ([] :: pkix_Name list)\<rparr>"
  let ?plain = "\<lparr>Whitelist = None, Names = ([] :: pkix_Name list)\<rparr>"
  let ?req = "\<lparr>CommonName = ''x'', Country = None, Province = None, Locality = None,
         Organization = Some [''Acme''], OrganizationalUnit = None\<rparr>"
  have h1: "Whitelist ?s = Some ?w" and h2: "Names ?s = []"
    and h3: "Whitelist ?plain = None" and h4: "Names ?plain = []"
    by simp_all
  from whitelist_before_override [of sample_externals ?req ?s] h1 h2
  have w: "whitelistRequest (Some ?s) ?req =
          ?req\<lparr>CommonName := (if CN ?w then CommonName ?req else []),
              Country := (if C ?w then Country ?req else Some []),
              Province := (if ST ?w then Province ?req else Some []),
              Locality := (if L ?w then Locality ?req else Some []),
              Organization := (if O' ?w then Organization ?req else Some []),
              OrganizationalUnit := (if OU ?w then OrganizationalUnit ?req else Some [])\<rparr>"
    and p: "PopulateSubjectFromCSR sample_externals (Some ?s) ?req = whitelistRequest (Some ?s) ?req"
    by blast+
  have a: "PopulateSubjectFromCSR sample_externals (Some ?s) ?req =
       \<lparr>CommonName = [], Country = Some [], Province = Some [], Locality = Some [],
        Organization = Some [''Acme''], OrganizationalUnit = Some []\<rparr>"
    unfolding p w by simp
  from whitelist_before_override [of sample_externals sample_name ?plain] h3 h4
  have "whitelistRequest (Some ?plain) sample_name = sample_name"
    and "PopulateSubjectFromCSR sample_externals (Some ?plain) sample_name =
           whitelistRequest (Some ?plain) sample_name"
    and c: "PopulateSubjectFromCSR sample_externals None sample_name = sample_name"
    by blast+
  then have b: "PopulateSubjectFromCSR sample_externals (Some ?plain) sample_name = sample_name"
    by simp
  from a b c h1 h3 show ?thesis by blast
qed

section \<open>The host classifier\<close>

lemma classify_acc:
  "IPAddresses t = Some a \<Longrightarrow> DNSNames t = Some d \<Longrightarrow>
   classify P hs t =
     t\<lparr>IPAddresses := Some (a @ List.map_filter P hs),
       DNSNames := Some (d @ filter (\<lambda>h. P h = None) hs)\<rparr>"
proof (induction hs arbitrary: t a d)
  case Nil
  then show ?case by simp
next
  case (Cons h hs)
  show ?case
  proof (cases "P h")
    case None
    with Cons.prems Cons.IH [of "t\<lparr>DNSNames := append_slice (DNSNames t) h\<rparr>" a "d @ [h]"]
    show ?thesis by (simp add: append_slice_def elems_def)
  next
    case (Some ip)
    with Cons.prems Cons.IH [of "t\<lparr>IPAddresses := append_slice (IPAddresses t) ip\<rparr>" "a @ [ip]" d]
    show ?thesis by (simp add: append_slice_def elems_def)
  qed
qed

text \<open>
  C8. For a non-nil host list \<open>OverrideHosts\<close> replaces both SAN lists of the template:
  the IP-address list becomes the parsed addresses of exactly the hosts that parse as IP
  literals, the DNS-name list the remaining hosts, each in input order and with nothing of
  the old lists left. For a nil host list the template is returned as it was.
\<close>

theorem OverrideHosts_replaces:
  "OverrideHosts X (Some hs) t =
     t\<lparr>IPAddresses := Some (List.map_filter (ParseIP X) hs),
       DNSNames := Some (filter (\<lambda>h. ParseIP X h = None) hs)\<rparr>
   \<and> OverrideHosts X None t = t"
  using classify_acc [of "t\<lparr>IPAddresses := Some [], DNSNames := Some []\<rparr>" "[]" "[]" "ParseIP X" hs]
  by (simp add: OverrideHosts_def elems_def)

theorem OverrideHosts_replaces_witness:
  "OverrideHosts sample_externals (Some [''10.0.0.1'', ''api.example.com'']) sample_template =
     sample_template\<lparr>IPAddresses := Some [[10, 0, 0, 1]], DNSNames := Some [''api.example.com'']\<rparr>
   \<and> OverrideHosts sample_externals None sample_template = sample_template"
  using OverrideHosts_replaces [of sample_externals "[''10.0.0.1'', ''api.example.com'']" sample_template]
  by (simp add: sample_externals_def)

end
